theory Spec2Isabelle
  imports Main
begin

section \<open>Data model\<close>

text \<open>
  The API layer of the logbook backend lives in \<^verbatim>\<open>app/main.py\<close>.  Every handler
  receives a database session and the request parameters, and either returns a value
  (serialised with the status code of its route decorator) or raises.  A session is
  modelled by the contents of the four entity tables; a handler takes the session and
  returns its outcome together with the session afterwards.

  Python integers are modelled as \<^typ>\<open>int\<close> and a parameter whose default is
  \<^verbatim>\<open>None\<close> as an \<^typ>\<open>'a option\<close>.  Text that the program only compares or passes on
  (names, error details, file contents) is a \<^typ>\<open>string\<close>.  A tail number is the one
  text the program computes on, with \<^verbatim>\<open>str.upper()\<close>; it is modelled as a Python
  \<^verbatim>\<open>str\<close> is: the list of its Unicode code points.  \<open>codes\<close> writes such a text from a
  literal.
\<close>

type_synonym attrs = "(string \<times> string) list"

type_synonym unicode = "nat list"

definition codes :: "string \<Rightarrow> unicode" where
  "codes s = map of_char s"

text \<open>Request bodies (the \<^verbatim>\<open>...Create\<close> schemas): the fields the handlers and the spec name,
  and the remaining attributes as a list of named values.\<close>

record PilotCreate =
  name :: string
  pilot_create_attrs :: attrs

record AircraftCreate =
  aircraft_create_tail :: unicode
  aircraft_create_attrs :: attrs

record FlightCreate =
  flight_create_attrs :: attrs

record LogbookCreate =
  logbook_create_pilot :: int
  logbook_create_layout :: attrs

text \<open>Storage rows of the four entity tables.\<close>

record Pilot =
  pilot_row_id :: int
  pilot_row_name :: string
  pilot_row_attrs :: attrs

record Aircraft =
  aircraft_row_id :: int
  aircraft_row_tail :: unicode
  aircraft_row_pilot :: int
  aircraft_row_attrs :: attrs

record Flight =
  flight_row_id :: int
  flight_row_pilot :: "int option"
  flight_row_aircraft :: "int option"
  flight_row_attrs :: attrs

record Logbook =
  logbook_row_id :: int
  logbook_row_pilot :: int
  logbook_row_layout :: attrs

record Session =
  pilots :: "Pilot list"
  aircrafts :: "Aircraft list"
  flights :: "Flight list"
  logbooks :: "Logbook list"

text \<open>What a handler can raise.  \<^verbatim>\<open>HTTPException\<close> is the only exception the handlers
  raise themselves; the others come out of the decoding and parsing calls of the upload
  handler and reach the client as an unhandled server error.\<close>

datatype exn =
  HTTPException (status_code: nat) (detail: string)
  | UnicodeDecodeError
  | ParserError string
  | KeyError string

text \<open>A returned value with the status code of the route.\<close>

datatype 'a response = Response (status: nat) (body: 'a)

section \<open>Data-access layer\<close>

text \<open>Modelled from the spec: the module \<^verbatim>\<open>sqlUtils.crud\<close> is imported by
  \<^verbatim>\<open>app/main.py\<close> but its code is missing.  The spec describes it as one function per
  entity operation (get-by-id, get-by-name, create, delete), each performing a single
  storage operation, with identities auto-assigned at creation.  \<open>next_id\<close> is the
  identity the store assigns: one more than every identity of the table.\<close>

definition next_id :: "int list \<Rightarrow> int" where
  "next_id ids = fold max ids 0 + 1"

text \<open>Modelled from the spec: get-by-id returns the row with that identity, or nothing
  when no matching row exists.  The handlers pass the parameter as they received it, so
  it may be \<^verbatim>\<open>None\<close>; identities of rows are never null.\<close>

definition get_pilot_by_id :: "Session \<Rightarrow> int option \<Rightarrow> Pilot option" where
  "get_pilot_by_id db pilot_id =
     find (\<lambda>p. Some (pilot_row_id p) = pilot_id) (pilots db)"

text \<open>Modelled from the spec: get-by-name, used for the uniqueness check of pilot names.\<close>

definition get_pilot_by_name :: "Session \<Rightarrow> string \<Rightarrow> Pilot option" where
  "get_pilot_by_name db pilot_name =
     find (\<lambda>p. pilot_row_name p = pilot_name) (pilots db)"

text \<open>Modelled from the spec: create inserts one row with a fresh identity and returns
  the created record.\<close>

definition create_pilot :: "Session \<Rightarrow> PilotCreate \<Rightarrow> Pilot \<times> Session" where
  "create_pilot db pilot =
     (let row = \<lparr>pilot_row_id = next_id (map pilot_row_id (pilots db)),
                 pilot_row_name = name pilot,
                 pilot_row_attrs = pilot_create_attrs pilot\<rparr>
      in (row, db\<lparr>pilots := pilots db @ [row]\<rparr>))"

text \<open>Modelled from the spec: the set of logbook layout rows owned by a pilot
  (empty if none).\<close>

definition get_logbook_by_pilot :: "Session \<Rightarrow> int \<Rightarrow> Logbook list" where
  "get_logbook_by_pilot db pilot_id =
     filter (\<lambda>l. logbook_row_pilot l = pilot_id) (logbooks db)"

text \<open>Modelled from the spec: logbook creation inserts unconditionally and returns the
  created row.\<close>

definition create_logbook :: "Session \<Rightarrow> LogbookCreate \<Rightarrow> Logbook \<times> Session" where
  "create_logbook db logbook =
     (let row = \<lparr>logbook_row_id = next_id (map logbook_row_id (logbooks db)),
                 logbook_row_pilot = logbook_create_pilot logbook,
                 logbook_row_layout = logbook_create_layout logbook\<rparr>
      in (row, db\<lparr>logbooks := logbooks db @ [row]\<rparr>))"

text \<open>Modelled from the spec: delete removes the matching row scoped to both the pilot
  id and the logbook id, and signals nothing when no row matched.\<close>

definition delete_logbook_map :: "Session \<Rightarrow> int \<Rightarrow> int \<Rightarrow> unit \<times> Session" where
  "delete_logbook_map db pilot_id logbook_id =
     ((), db\<lparr>logbooks :=
            filter (\<lambda>l. \<not> (logbook_row_pilot l = pilot_id \<and> logbook_row_id l = logbook_id))
              (logbooks db)\<rparr>)"

text \<open>Modelled from the spec: search by tail number returns the matching record or a
  null result if none is found.\<close>

definition get_aircraft_by_tail :: "Session \<Rightarrow> unicode \<Rightarrow> Aircraft option" where
  "get_aircraft_by_tail db tail_numb =
     find (\<lambda>a. aircraft_row_tail a = tail_numb) (aircrafts db)"

text \<open>Modelled from the spec: get-by-id on the aircraft table.\<close>

definition get_aircraft_by_id :: "Session \<Rightarrow> int option \<Rightarrow> Aircraft option" where
  "get_aircraft_by_id db ac_id =
     find (\<lambda>a. Some (aircraft_row_id a) = ac_id) (aircrafts db)"

text \<open>Modelled from the spec: aircraft creation inserts unconditionally, with the owning
  pilot reference it was given.\<close>

definition create_aircraft :: "Session \<Rightarrow> AircraftCreate \<Rightarrow> int \<Rightarrow> Aircraft \<times> Session" where
  "create_aircraft db aircraft pilot_id =
     (let row = \<lparr>aircraft_row_id = next_id (map aircraft_row_id (aircrafts db)),
                 aircraft_row_tail = aircraft_create_tail aircraft,
                 aircraft_row_pilot = pilot_id,
                 aircraft_row_attrs = aircraft_create_attrs aircraft\<rparr>
      in (row, db\<lparr>aircrafts := aircrafts db @ [row]\<rparr>))"

text \<open>Modelled from the spec: flight creation inserts one row carrying the two
  references it was given.\<close>

definition create_flight ::
  "Session \<Rightarrow> FlightCreate \<Rightarrow> int option \<Rightarrow> int option \<Rightarrow> Flight \<times> Session" where
  "create_flight db flight pilot_id aircraft_id =
     (let row = \<lparr>flight_row_id = next_id (map flight_row_id (flights db)),
                 flight_row_pilot = pilot_id,
                 flight_row_aircraft = aircraft_id,
                 flight_row_attrs = flight_create_attrs flight\<rparr>
      in (row, db\<lparr>flights := flights db @ [row]\<rparr>))"

section \<open>Route handlers\<close>

text \<open>A handler that returns a value answers with the status code of its decorator
  (200 when none is given); a handler that raises leaves the session as it was.\<close>

definition returning :: "nat \<Rightarrow> 'a \<times> Session \<Rightarrow> (exn + 'a response) \<times> Session" where
  "returning code r = (Inr (Response code (fst r)), snd r)"

definition g_pilot :: "Session \<Rightarrow> int \<Rightarrow> (exn + Pilot response) \<times> Session" where
  "g_pilot db pilot_id =
     (let db_pilot = get_pilot_by_id db (Some pilot_id) in
      case db_pilot of
        None \<Rightarrow> (Inl (HTTPException 422 ''Pilot ID required.''), db)
      | Some row \<Rightarrow> returning 200 (row, db))"

definition p_pilot :: "Session \<Rightarrow> PilotCreate \<Rightarrow> (exn + Pilot response) \<times> Session" where
  "p_pilot db pilot =
     (let db_pilot = get_pilot_by_name db (name pilot) in
      if db_pilot \<noteq> None then (Inl (HTTPException 400 ''Name already registered''), db)
      else returning 201 (create_pilot db pilot))"

definition g_logbook ::
  "Session \<Rightarrow> int option \<Rightarrow> (exn + Logbook list response) \<times> Session" where
  "g_logbook db pilot_id =
     (case pilot_id of
        None \<Rightarrow> (Inl (HTTPException 400 ''Pilot ID needed''), db)
      | Some i \<Rightarrow> returning 200 (get_logbook_by_pilot db i, db))"

definition p_logbook :: "Session \<Rightarrow> LogbookCreate \<Rightarrow> (exn + Logbook response) \<times> Session" where
  "p_logbook db logbook = returning 201 (create_logbook db logbook)"

definition del_logbook :: "Session \<Rightarrow> int \<Rightarrow> int \<Rightarrow> (exn + unit response) \<times> Session" where
  "del_logbook db pilot_id logbook_id =
     returning 202 (delete_logbook_map db pilot_id logbook_id)"

text \<open>\<^verbatim>\<open>str.upper()\<close> replaces every character of the text by its upper-case mapping
  in the Unicode character database and concatenates the results; the mapping of a
  character does not depend on its neighbours, and it may be several characters long.
  The database (version 14.0.0, the one of CPython 3.11) is written here as two tables.
  A run \<open>(lo, hi, step, tgt)\<close> says that the code points \<open>lo, lo + step, ...\<close> up to \<open>hi\<close>
  map to \<open>tgt, tgt + step, ...\<close>; the first run is \<^verbatim>\<open>a\<close> to \<^verbatim>\<open>z\<close>.  The special table
  lists the characters whose upper-case form has more than one character.  Every other
  code point is its own upper-case form.\<close>

type_synonym run = "nat \<times> nat \<times> nat \<times> nat"

definition upper_runs :: "run list" where
  "upper_runs =
    [(97, 122, 1, 65), (181, 181, 1, 924), (224, 246, 1, 192), (248, 254, 1, 216), (255, 255, 1,
     376), (257, 303, 2, 256), (305, 305, 1, 73), (307, 311, 2, 306), (314, 328, 2, 313), (331,
     375, 2, 330), (378, 382, 2, 377), (383, 383, 1, 83), (384, 384, 1, 579), (387, 389, 2, 386),
     (392, 392, 1, 391), (396, 396, 1, 395), (402, 402, 1, 401), (405, 405, 1, 502), (409, 409,
     1, 408), (410, 410, 1, 573), (414, 414, 1, 544), (417, 421, 2, 416), (424, 424, 1, 423),
     (429, 429, 1, 428), (432, 432, 1, 431), (436, 438, 2, 435), (441, 441, 1, 440), (445, 445,
     1, 444), (447, 447, 1, 503), (453, 453, 1, 452), (454, 454, 1, 452), (456, 456, 1, 455),
     (457, 457, 1, 455), (459, 459, 1, 458), (460, 460, 1, 458), (462, 476, 2, 461), (477, 477,
     1, 398), (479, 495, 2, 478), (498, 498, 1, 497), (499, 499, 1, 497), (501, 501, 1, 500),
     (505, 543, 2, 504), (547, 563, 2, 546), (572, 572, 1, 571), (575, 576, 1, 11390), (578, 578,
     1, 577), (583, 591, 2, 582), (592, 592, 1, 11375), (593, 593, 1, 11373), (594, 594, 1,
     11376), (595, 595, 1, 385), (596, 596, 1, 390), (598, 599, 1, 393), (601, 601, 1, 399),
     (603, 603, 1, 400), (604, 604, 1, 42923), (608, 608, 1, 403), (609, 609, 1, 42924), (611,
     611, 1, 404), (613, 613, 1, 42893), (614, 614, 1, 42922), (616, 616, 1, 407), (617, 617, 1,
     406), (618, 618, 1, 42926), (619, 619, 1, 11362), (620, 620, 1, 42925), (623, 623, 1, 412),
     (625, 625, 1, 11374), (626, 626, 1, 413), (629, 629, 1, 415), (637, 637, 1, 11364), (640,
     640, 1, 422), (642, 642, 1, 42949), (643, 643, 1, 425), (647, 647, 1, 42929), (648, 648, 1,
     430), (649, 649, 1, 580), (650, 651, 1, 433), (652, 652, 1, 581), (658, 658, 1, 439), (669,
     669, 1, 42930), (670, 670, 1, 42928), (837, 837, 1, 921), (881, 883, 2, 880), (887, 887, 1,
     886), (891, 893, 1, 1021), (940, 940, 1, 902), (941, 943, 1, 904), (945, 961, 1, 913), (962,
     962, 1, 931), (963, 971, 1, 931), (972, 972, 1, 908), (973, 974, 1, 910), (976, 976, 1,
     914), (977, 977, 1, 920), (981, 981, 1, 934), (982, 982, 1, 928), (983, 983, 1, 975), (985,
     1007, 2, 984), (1008, 1008, 1, 922), (1009, 1009, 1, 929), (1010, 1010, 1, 1017), (1011,
     1011, 1, 895), (1013, 1013, 1, 917), (1016, 1016, 1, 1015), (1019, 1019, 1, 1018), (1072,
     1103, 1, 1040), (1104, 1119, 1, 1024), (1121, 1153, 2, 1120), (1163, 1215, 2, 1162), (1218,
     1230, 2, 1217), (1231, 1231, 1, 1216), (1233, 1327, 2, 1232), (1377, 1414, 1, 1329), (4304,
     4346, 1, 7312), (4349, 4351, 1, 7357), (5112, 5117, 1, 5104), (7296, 7296, 1, 1042), (7297,
     7297, 1, 1044), (7298, 7298, 1, 1054), (7299, 7300, 1, 1057), (7301, 7301, 1, 1058), (7302,
     7302, 1, 1066), (7303, 7303, 1, 1122), (7304, 7304, 1, 42570), (7545, 7545, 1, 42877),
     (7549, 7549, 1, 11363), (7566, 7566, 1, 42950), (7681, 7829, 2, 7680), (7835, 7835, 1,
     7776), (7841, 7935, 2, 7840), (7936, 7943, 1, 7944), (7952, 7957, 1, 7960), (7968, 7975, 1,
     7976), (7984, 7991, 1, 7992), (8000, 8005, 1, 8008), (8017, 8023, 2, 8025), (8032, 8039, 1,
     8040), (8048, 8049, 1, 8122), (8050, 8053, 1, 8136), (8054, 8055, 1, 8154), (8056, 8057, 1,
     8184), (8058, 8059, 1, 8170), (8060, 8061, 1, 8186), (8112, 8113, 1, 8120), (8126, 8126, 1,
     921), (8144, 8145, 1, 8152), (8160, 8161, 1, 8168), (8165, 8165, 1, 8172), (8526, 8526, 1,
     8498), (8560, 8575, 1, 8544), (8580, 8580, 1, 8579), (9424, 9449, 1, 9398), (11312, 11359,
     1, 11264), (11361, 11361, 1, 11360), (11365, 11365, 1, 570), (11366, 11366, 1, 574), (11368,
     11372, 2, 11367), (11379, 11379, 1, 11378), (11382, 11382, 1, 11381), (11393, 11491, 2,
     11392), (11500, 11502, 2, 11499), (11507, 11507, 1, 11506), (11520, 11557, 1, 4256), (11559,
     11559, 1, 4295), (11565, 11565, 1, 4301), (42561, 42605, 2, 42560), (42625, 42651, 2,
     42624), (42787, 42799, 2, 42786), (42803, 42863, 2, 42802), (42874, 42876, 2, 42873),
     (42879, 42887, 2, 42878), (42892, 42892, 1, 42891), (42897, 42899, 2, 42896), (42900, 42900,
     1, 42948), (42903, 42921, 2, 42902), (42933, 42947, 2, 42932), (42952, 42954, 2, 42951),
     (42961, 42961, 1, 42960), (42967, 42969, 2, 42966), (42998, 42998, 1, 42997), (43859, 43859,
     1, 42931), (43888, 43967, 1, 5024), (65345, 65370, 1, 65313), (66600, 66639, 1, 66560),
     (66776, 66811, 1, 66736), (66967, 67003, 2, 66928), (66968, 66976, 2, 66929), (66980, 66992,
     2, 66941), (66996, 67000, 2, 66957), (67004, 67004, 1, 66965), (68800, 68850, 1, 68736),
     (71872, 71903, 1, 71840), (93792, 93823, 1, 93760), (125218, 125251, 1, 125184)]"

definition upper_special :: "(nat \<times> unicode) list" where
  "upper_special =
    [(223, [83, 83]), (329, [700, 78]), (496, [74, 780]), (912, [921, 776, 769]), (944, [933,
     776, 769]), (1415, [1333, 1362]), (7830, [72, 817]), (7831, [84, 776]), (7832, [87, 778]),
     (7833, [89, 778]), (7834, [65, 702]), (8016, [933, 787]), (8018, [933, 787, 768]), (8020,
     [933, 787, 769]), (8022, [933, 787, 834]), (8064, [7944, 921]), (8065, [7945, 921]), (8066,
     [7946, 921]), (8067, [7947, 921]), (8068, [7948, 921]), (8069, [7949, 921]), (8070, [7950,
     921]), (8071, [7951, 921]), (8072, [7944, 921]), (8073, [7945, 921]), (8074, [7946, 921]),
     (8075, [7947, 921]), (8076, [7948, 921]), (8077, [7949, 921]), (8078, [7950, 921]), (8079,
     [7951, 921]), (8080, [7976, 921]), (8081, [7977, 921]), (8082, [7978, 921]), (8083, [7979,
     921]), (8084, [7980, 921]), (8085, [7981, 921]), (8086, [7982, 921]), (8087, [7983, 921]),
     (8088, [7976, 921]), (8089, [7977, 921]), (8090, [7978, 921]), (8091, [7979, 921]), (8092,
     [7980, 921]), (8093, [7981, 921]), (8094, [7982, 921]), (8095, [7983, 921]), (8096, [8040,
     921]), (8097, [8041, 921]), (8098, [8042, 921]), (8099, [8043, 921]), (8100, [8044, 921]),
     (8101, [8045, 921]), (8102, [8046, 921]), (8103, [8047, 921]), (8104, [8040, 921]), (8105,
     [8041, 921]), (8106, [8042, 921]), (8107, [8043, 921]), (8108, [8044, 921]), (8109, [8045,
     921]), (8110, [8046, 921]), (8111, [8047, 921]), (8114, [8122, 921]), (8115, [913, 921]),
     (8116, [902, 921]), (8118, [913, 834]), (8119, [913, 834, 921]), (8124, [913, 921]), (8130,
     [8138, 921]), (8131, [919, 921]), (8132, [905, 921]), (8134, [919, 834]), (8135, [919, 834,
     921]), (8140, [919, 921]), (8146, [921, 776, 768]), (8147, [921, 776, 769]), (8150, [921,
     834]), (8151, [921, 776, 834]), (8162, [933, 776, 768]), (8163, [933, 776, 769]), (8164,
     [929, 787]), (8166, [933, 834]), (8167, [933, 776, 834]), (8178, [8186, 921]), (8179, [937,
     921]), (8180, [911, 921]), (8182, [937, 834]), (8183, [937, 834, 921]), (8188, [937, 921]),
     (64256, [70, 70]), (64257, [70, 73]), (64258, [70, 76]), (64259, [70, 70, 73]), (64260, [70,
     70, 76]), (64261, [83, 84]), (64262, [83, 84]), (64275, [1348, 1350]), (64276, [1348,
     1333]), (64277, [1348, 1339]), (64278, [1358, 1350]), (64279, [1348, 1341])]"

definition in_run :: "nat \<Rightarrow> run \<Rightarrow> bool" where
  "in_run cp r =
     (case r of (lo, hi, step, tgt) \<Rightarrow> lo \<le> cp \<and> cp \<le> hi \<and> (cp - lo) mod step = 0)"

definition case_map :: "run list \<Rightarrow> (nat \<times> unicode) list \<Rightarrow> nat \<Rightarrow> unicode" where
  "case_map rs sp cp =
     (case find (in_run cp) rs of
        Some (lo, hi, step, tgt) \<Rightarrow> [tgt + (cp - lo)]
      | None \<Rightarrow> (case map_of sp cp of Some u \<Rightarrow> u | None \<Rightarrow> [cp]))"

definition upper_char :: "nat \<Rightarrow> unicode" where
  "upper_char = case_map upper_runs upper_special"

definition upper :: "unicode \<Rightarrow> unicode" where
  "upper s = concat (map upper_char s)"

definition search_tn ::
  "Session \<Rightarrow> unicode option \<Rightarrow> (exn + Aircraft option response) \<times> Session" where
  "search_tn db ac_tail =
     (case ac_tail of
        None \<Rightarrow> (Inl (HTTPException 400 ''Missing Tail Number''), db)
      | Some t \<Rightarrow> returning 200 (get_aircraft_by_tail db (upper t), db))"

definition p_aircraft ::
  "Session \<Rightarrow> int \<Rightarrow> AircraftCreate \<Rightarrow> (exn + Aircraft response) \<times> Session" where
  "p_aircraft db pilot_id aircraft = returning 201 (create_aircraft db aircraft pilot_id)"

definition p_flight ::
  "Session \<Rightarrow> FlightCreate \<Rightarrow> int option \<Rightarrow> int option \<Rightarrow> (exn + Flight response) \<times> Session"
  where
  "p_flight db flight pilot_id aircraft_id =
     (let db_pilot = get_pilot_by_id db pilot_id;
          db_ac = get_aircraft_by_id db aircraft_id
      in if db_pilot = None then (Inl (HTTPException 422 ''Pilot ID required.''), db)
         else if db_ac = None then (Inl (HTTPException 422 ''Aircraft ID required.''), db)
         else returning 201 (create_flight db flight pilot_id aircraft_id))"

section \<open>The upload handler\<close>

text \<open>The upload handler hands the bytes of the file to the decoder and to pandas.
  These library calls are parameters of the model: decoding the bytes as
  \<^verbatim>\<open>utf-8-sig\<close>, \<^verbatim>\<open>read_csv\<close> with its \<^verbatim>\<open>parse_dates\<close> columns, \<^verbatim>\<open>fillna\<close>, the
  column lookup \<^verbatim>\<open>file_pd["Aircraft"]\<close> and \<^verbatim>\<open>describe\<close>.  Each call that can raise
  returns the exception as a value.\<close>

record ('df, 'col) pandas =
  str_decode :: "string \<Rightarrow> exn + string"
  read_csv :: "string \<Rightarrow> string list \<Rightarrow> exn + 'df"
  fillna :: "'df \<Rightarrow> int \<Rightarrow> 'df"
  getitem :: "'df \<Rightarrow> string \<Rightarrow> exn + 'col"
  describe :: "'col \<Rightarrow> string"

text \<open>The outcome of the upload handler: what it raised or returned (it returns
  \<^verbatim>\<open>None\<close>), the lines it printed, and the session afterwards.\<close>

definition upload_logbook_file ::
  "('df, 'col) pandas \<Rightarrow> Session \<Rightarrow> string \<Rightarrow> int option \<Rightarrow>
     (exn + unit response) \<times> string list \<times> Session" where
  "upload_logbook_file pd db file pilot_id =
     (case pilot_id of
        None \<Rightarrow> (Inl (HTTPException 422 ''Pilot ID required.''), [], db)
      | Some _ \<Rightarrow>
         (let file_raw = file in
          case str_decode pd file_raw of
            Inl e \<Rightarrow> (Inl e, [], db)
          | Inr text \<Rightarrow>
             (case read_csv pd text [''Date''] of
                Inl e \<Rightarrow> (Inl e, [], db)
              | Inr df \<Rightarrow>
                 (let file_pd = fillna pd df 0 in
                  case getitem pd file_pd ''Aircraft'' of
                    Inl e \<Rightarrow> (Inl e, [], db)
                  | Inr col \<Rightarrow> (Inr (Response 201 ()), [describe pd col], db)))))"

section \<open>Vocabulary of the properties\<close>

text \<open>The identities and names stored in a session.\<close>

definition pilot_ids :: "Session \<Rightarrow> int list" where
  "pilot_ids db = map pilot_row_id (pilots db)"

definition aircraft_ids :: "Session \<Rightarrow> int list" where
  "aircraft_ids db = map aircraft_row_id (aircrafts db)"

definition pilot_names :: "Session \<Rightarrow> string list" where
  "pilot_names db = map pilot_row_name (pilots db)"

text \<open>Letter case.  \<open>lower_char\<close> is the lower-case mapping of a single character as
  \<^verbatim>\<open>str.lower()\<close> gives it, from the same database and in the same form as the upper-case
  tables.\<close>

definition lower_runs :: "run list" where
  "lower_runs =
    [(65, 90, 1, 97), (192, 214, 1, 224), (216, 222, 1, 248), (256, 302, 2, 257), (306, 310, 2,
     307), (313, 327, 2, 314), (330, 374, 2, 331), (376, 376, 1, 255), (377, 381, 2, 378), (385,
     385, 1, 595), (386, 388, 2, 387), (390, 390, 1, 596), (391, 391, 1, 392), (393, 394, 1,
     598), (395, 395, 1, 396), (398, 398, 1, 477), (399, 399, 1, 601), (400, 400, 1, 603), (401,
     401, 1, 402), (403, 403, 1, 608), (404, 404, 1, 611), (406, 406, 1, 617), (407, 407, 1,
     616), (408, 408, 1, 409), (412, 412, 1, 623), (413, 413, 1, 626), (415, 415, 1, 629), (416,
     420, 2, 417), (422, 422, 1, 640), (423, 423, 1, 424), (425, 425, 1, 643), (428, 428, 1,
     429), (430, 430, 1, 648), (431, 431, 1, 432), (433, 434, 1, 650), (435, 437, 2, 436), (439,
     439, 1, 658), (440, 440, 1, 441), (444, 444, 1, 445), (452, 452, 1, 454), (453, 453, 1,
     454), (455, 455, 1, 457), (456, 456, 1, 457), (458, 458, 1, 460), (459, 475, 2, 460), (478,
     494, 2, 479), (497, 497, 1, 499), (498, 500, 2, 499), (502, 502, 1, 405), (503, 503, 1,
     447), (504, 542, 2, 505), (544, 544, 1, 414), (546, 562, 2, 547), (570, 570, 1, 11365),
     (571, 571, 1, 572), (573, 573, 1, 410), (574, 574, 1, 11366), (577, 577, 1, 578), (579, 579,
     1, 384), (580, 580, 1, 649), (581, 581, 1, 652), (582, 590, 2, 583), (880, 882, 2, 881),
     (886, 886, 1, 887), (895, 895, 1, 1011), (902, 902, 1, 940), (904, 906, 1, 941), (908, 908,
     1, 972), (910, 911, 1, 973), (913, 929, 1, 945), (931, 939, 1, 963), (975, 975, 1, 983),
     (984, 1006, 2, 985), (1012, 1012, 1, 952), (1015, 1015, 1, 1016), (1017, 1017, 1, 1010),
     (1018, 1018, 1, 1019), (1021, 1023, 1, 891), (1024, 1039, 1, 1104), (1040, 1071, 1, 1072),
     (1120, 1152, 2, 1121), (1162, 1214, 2, 1163), (1216, 1216, 1, 1231), (1217, 1229, 2, 1218),
     (1232, 1326, 2, 1233), (1329, 1366, 1, 1377), (4256, 4293, 1, 11520), (4295, 4295, 1,
     11559), (4301, 4301, 1, 11565), (5024, 5103, 1, 43888), (5104, 5109, 1, 5112), (7312, 7354,
     1, 4304), (7357, 7359, 1, 4349), (7680, 7828, 2, 7681), (7838, 7838, 1, 223), (7840, 7934,
     2, 7841), (7944, 7951, 1, 7936), (7960, 7965, 1, 7952), (7976, 7983, 1, 7968), (7992, 7999,
     1, 7984), (8008, 8013, 1, 8000), (8025, 8031, 2, 8017), (8040, 8047, 1, 8032), (8072, 8079,
     1, 8064), (8088, 8095, 1, 8080), (8104, 8111, 1, 8096), (8120, 8121, 1, 8112), (8122, 8123,
     1, 8048), (8124, 8124, 1, 8115), (8136, 8139, 1, 8050), (8140, 8140, 1, 8131), (8152, 8153,
     1, 8144), (8154, 8155, 1, 8054), (8168, 8169, 1, 8160), (8170, 8171, 1, 8058), (8172, 8172,
     1, 8165), (8184, 8185, 1, 8056), (8186, 8187, 1, 8060), (8188, 8188, 1, 8179), (8486, 8486,
     1, 969), (8490, 8490, 1, 107), (8491, 8491, 1, 229), (8498, 8498, 1, 8526), (8544, 8559, 1,
     8560), (8579, 8579, 1, 8580), (9398, 9423, 1, 9424), (11264, 11311, 1, 11312), (11360,
     11360, 1, 11361), (11362, 11362, 1, 619), (11363, 11363, 1, 7549), (11364, 11364, 1, 637),
     (11367, 11371, 2, 11368), (11373, 11373, 1, 593), (11374, 11374, 1, 625), (11375, 11375, 1,
     592), (11376, 11376, 1, 594), (11378, 11378, 1, 11379), (11381, 11381, 1, 11382), (11390,
     11391, 1, 575), (11392, 11490, 2, 11393), (11499, 11501, 2, 11500), (11506, 11506, 1,
     11507), (42560, 42604, 2, 42561), (42624, 42650, 2, 42625), (42786, 42798, 2, 42787),
     (42802, 42862, 2, 42803), (42873, 42875, 2, 42874), (42877, 42877, 1, 7545), (42878, 42886,
     2, 42879), (42891, 42891, 1, 42892), (42893, 42893, 1, 613), (42896, 42898, 2, 42897),
     (42902, 42920, 2, 42903), (42922, 42922, 1, 614), (42923, 42923, 1, 604), (42924, 42924, 1,
     609), (42925, 42925, 1, 620), (42926, 42926, 1, 618), (42928, 42928, 1, 670), (42929, 42929,
     1, 647), (42930, 42930, 1, 669), (42931, 42931, 1, 43859), (42932, 42946, 2, 42933), (42948,
     42948, 1, 42900), (42949, 42949, 1, 642), (42950, 42950, 1, 7566), (42951, 42953, 2, 42952),
     (42960, 42960, 1, 42961), (42966, 42968, 2, 42967), (42997, 42997, 1, 42998), (65313, 65338,
     1, 65345), (66560, 66599, 1, 66600), (66736, 66771, 1, 66776), (66928, 66964, 2, 66967),
     (66929, 66937, 2, 66968), (66941, 66953, 2, 66980), (66957, 66961, 2, 66996), (66965, 66965,
     1, 67004), (68736, 68786, 1, 68800), (71840, 71871, 1, 71872), (93760, 93791, 1, 93792),
     (125184, 125217, 1, 125218)]"

definition lower_special :: "(nat \<times> unicode) list" where
  "lower_special =
    [(304, [105, 775])]"

definition lower_char :: "nat \<Rightarrow> unicode" where
  "lower_char = case_map lower_runs lower_special"

text \<open>Two characters are the same letter when they are equal or one is the upper-case
  or the lower-case form of the other; two texts differ only in letter case when they
  have the same length and agree in this sense at every position.\<close>

definition same_letter :: "nat \<Rightarrow> nat \<Rightarrow> bool" where
  "same_letter c d =
     (c = d \<or> upper_char c = [d] \<or> upper_char d = [c] \<or>
      lower_char c = [d] \<or> lower_char d = [c])"

definition differ_only_in_case :: "unicode \<Rightarrow> unicode \<Rightarrow> bool" where
  "differ_only_in_case s t = list_all2 same_letter s t"

text \<open>The narrower relation: equal, or one is the upper-case form of the other.\<close>

definition upper_variant :: "nat \<Rightarrow> nat \<Rightarrow> bool" where
  "upper_variant c d = (c = d \<or> upper_char c = [d] \<or> upper_char d = [c])"

definition differ_only_by_upper :: "unicode \<Rightarrow> unicode \<Rightarrow> bool" where
  "differ_only_by_upper s t = list_all2 upper_variant s t"

text \<open>Two checks on the upper-case tables, used to show that an upper-case form is its
  own upper-case form.  \<open>image_clear a b\<close>: no image of run \<open>a\<close> lies in the domain of run
  \<open>b\<close>, because the two intervals are apart or because the images and the domain have
  different parity.  \<open>image_misses a k\<close>: the code point \<open>k\<close> is no image of run \<open>a\<close>.\<close>

definition image_clear :: "run \<Rightarrow> run \<Rightarrow> bool" where
  "image_clear a b =
     (case a of (lo, hi, step, tgt) \<Rightarrow> case b of (lo2, hi2, step2, tgt2) \<Rightarrow>
        if tgt + (hi - lo) < lo2 then True
        else if hi2 < tgt then True
        else (step = 2 \<or> lo = hi) \<and> step2 = 2 \<and> tgt mod 2 \<noteq> lo2 mod 2)"

definition image_misses :: "run \<Rightarrow> nat \<Rightarrow> bool" where
  "image_misses a k =
     (case a of (lo, hi, step, tgt) \<Rightarrow>
        if k < tgt then True
        else if tgt + (hi - lo) < k then True
        else (step = 2 \<or> lo = hi) \<and> k mod 2 \<noteq> tgt mod 2)"

text \<open>A logbook row matches a deletion request when both identifiers agree.\<close>

definition matches :: "int \<Rightarrow> int \<Rightarrow> Logbook \<Rightarrow> bool" where
  "matches pilot_id logbook_id l =
     (logbook_row_pilot l = pilot_id \<and> logbook_row_id l = logbook_id)"

text \<open>A small session used to run the handlers: one pilot, her aircraft, and two
  logbook layouts of which the second belongs to a pilot with id 2.\<close>

definition example_session :: Session where
  "example_session =
     \<lparr>pilots = [\<lparr>pilot_row_id = 1, pilot_row_name = ''Alice'', pilot_row_attrs = []\<rparr>],
      aircrafts = [\<lparr>aircraft_row_id = 1, aircraft_row_tail = codes ''N12345'',
                    aircraft_row_pilot = 1, aircraft_row_attrs = []\<rparr>],
      flights = [],
      logbooks = [\<lparr>logbook_row_id = 1, logbook_row_pilot = 1, logbook_row_layout = []\<rparr>,
                  \<lparr>logbook_row_id = 2, logbook_row_pilot = 2, logbook_row_layout = []\<rparr>]\<rparr>"

text \<open>A session whose one aircraft has the tail text \<^verbatim>\<open>K\<close>.\<close>

definition example_fleet :: Session where
  "example_fleet =
     \<lparr>pilots = [],
      aircrafts = [\<lparr>aircraft_row_id = 1, aircraft_row_tail = codes ''K'',
                    aircraft_row_pilot = 1, aircraft_row_attrs = []\<rparr>],
      flights = [],
      logbooks = []\<rparr>"

definition example_pandas :: "(string list, string list) pandas" where
  "example_pandas =
     \<lparr>str_decode = (\<lambda>raw. if raw = [] then Inl UnicodeDecodeError else Inr raw),
      read_csv = (\<lambda>text dates. if set dates \<subseteq> {text} then Inr [text]
                               else Inl (ParserError ''Missing column'')),
      fillna = (\<lambda>df v. df),
      getitem = (\<lambda>df key. if key \<in> set df then Inr df else Inl (KeyError key)),
      describe = (\<lambda>col. concat col)\<rparr>"

section \<open>Lookups and fresh identities\<close>

lemma find_None_conv: "find P xs = None \<longleftrightarrow> list_all (\<lambda>x. \<not> P x) xs"
  by (induction xs) auto

lemma find_Some_member: "find P xs = Some x \<Longrightarrow> x \<in> set xs \<and> P x"
  by (induction xs) (auto split: if_splits)

lemma get_pilot_by_id_None:
  "get_pilot_by_id db (Some i) = None \<longleftrightarrow> i \<notin> set (pilot_ids db)"
  by (auto simp: get_pilot_by_id_def pilot_ids_def find_None_conv list_all_iff)

lemma get_pilot_by_id_Some:
  "get_pilot_by_id db (Some i) = Some row \<Longrightarrow> row \<in> set (pilots db) \<and> pilot_row_id row = i"
  unfolding get_pilot_by_id_def by (drule find_Some_member) simp

lemma get_pilot_by_id_omitted: "get_pilot_by_id db None = None"
  by (simp add: get_pilot_by_id_def find_None_conv list_all_iff)

lemma get_aircraft_by_id_None:
  "get_aircraft_by_id db (Some i) = None \<longleftrightarrow> i \<notin> set (aircraft_ids db)"
  by (auto simp: get_aircraft_by_id_def aircraft_ids_def find_None_conv list_all_iff)

lemma get_aircraft_by_id_omitted: "get_aircraft_by_id db None = None"
  by (simp add: get_aircraft_by_id_def find_None_conv list_all_iff)

lemma pilot_lookup_fails_iff:
  "get_pilot_by_id db pilot_id = None \<longleftrightarrow> pilot_id \<notin> Some ` set (pilot_ids db)"
  by (cases pilot_id) (auto simp: get_pilot_by_id_omitted get_pilot_by_id_None)

lemma aircraft_lookup_fails_iff:
  "get_aircraft_by_id db aircraft_id = None \<longleftrightarrow> aircraft_id \<notin> Some ` set (aircraft_ids db)"
  by (cases aircraft_id) (auto simp: get_aircraft_by_id_omitted get_aircraft_by_id_None)

lemma get_pilot_by_name_None:
  "get_pilot_by_name db n = None \<longleftrightarrow> n \<notin> set (pilot_names db)"
  by (auto simp: get_pilot_by_name_def pilot_names_def find_None_conv list_all_iff)

lemma fold_max_bounds:
  fixes a :: int
  shows "a \<le> fold max xs a \<and> (\<forall>x \<in> set xs. x \<le> fold max xs a)"
proof (induction xs arbitrary: a)
  case Nil
  show ?case by simp
next
  case (Cons y ys)
  have "max y a \<le> fold max ys (max y a)"
    and "\<forall>x \<in> set ys. x \<le> fold max ys (max y a)"
    using Cons.IH [of "max y a"] by simp_all
  then show ?case by auto
qed

lemma next_id_fresh: "next_id ids \<notin> set ids"
proof
  assume "next_id ids \<in> set ids"
  then have "next_id ids \<le> fold max ids 0"
    using fold_max_bounds [of 0 ids] by blast
  then show False by (simp add: next_id_def)
qed

section \<open>Fetching a pilot\<close>

text \<open>
  Claim C3.  A get-pilot-by-id request whose id matches no pilot row fails with the 422
  error whose detail is "Pilot ID required." and leaves the session alone; when a row
  with that id exists, the handler returns a stored row with that id, in full, with
  status 200.
\<close>

theorem g_pilot_not_found_or_row:
  "(pilot_id \<notin> set (pilot_ids db) \<longrightarrow>
      g_pilot db pilot_id = (Inl (HTTPException 422 ''Pilot ID required.''), db)) \<and>
   (pilot_id \<in> set (pilot_ids db) \<longrightarrow>
      (\<exists>row. g_pilot db pilot_id = (Inr (Response 200 row), db) \<and>
             row \<in> set (pilots db) \<and> pilot_row_id row = pilot_id \<and>
             get_pilot_by_id db (Some pilot_id) = Some row))"
proof (cases "get_pilot_by_id db (Some pilot_id)")
  case None
  then show ?thesis
    using get_pilot_by_id_None [of db pilot_id] by (simp add: g_pilot_def)
next
  case (Some row)
  then have "pilot_id \<in> set (pilot_ids db)"
    using get_pilot_by_id_None [of db pilot_id] by simp
  with Some get_pilot_by_id_Some [OF Some] show ?thesis
    by (simp add: g_pilot_def returning_def)
qed

theorem g_pilot_not_found_or_row_witness:
  "7 \<notin> set (pilot_ids example_session) \<and>
   g_pilot example_session 7 = (Inl (HTTPException 422 ''Pilot ID required.''), example_session) \<and>
   1 \<in> set (pilot_ids example_session) \<and>
   g_pilot example_session 1 =
     (Inr (Response 200 \<lparr>pilot_row_id = 1, pilot_row_name = ''Alice'', pilot_row_attrs = []\<rparr>),
      example_session)"
proof -
  have out: "7 \<notin> set (pilot_ids example_session)"
    and inn: "1 \<in> set (pilot_ids example_session)"
    by (simp_all add: pilot_ids_def example_session_def)
  have "g_pilot example_session 7 =
      (Inl (HTTPException 422 ''Pilot ID required.''), example_session)"
    using g_pilot_not_found_or_row [of 7 example_session] out by simp
  moreover obtain row where
    "g_pilot example_session 1 = (Inr (Response 200 row), example_session)"
    "get_pilot_by_id example_session (Some 1) = Some row"
    using g_pilot_not_found_or_row [of 1 example_session] inn by blast
  moreover have "get_pilot_by_id example_session (Some 1) =
      Some \<lparr>pilot_row_id = 1, pilot_row_name = ''Alice'', pilot_row_attrs = []\<rparr>"
    by (simp add: get_pilot_by_id_def example_session_def)
  ultimately show ?thesis using out inn by simp
qed

section \<open>Registering a pilot\<close>

text \<open>
  Claim C2.  A pilot-creation request whose name is the name of a registered pilot fails
  with the 400 error "Name already registered" and the session, hence the pilot table,
  is as before; a request whose name is not yet registered answers 201 with the created
  row, which carries the requested name and attributes and a fresh identity, and which
  is the one row added to the pilot table.
\<close>

theorem p_pilot_duplicate_or_created:
  "(name pilot \<in> set (pilot_names db) \<longrightarrow>
      p_pilot db pilot = (Inl (HTTPException 400 ''Name already registered''), db)) \<and>
   (name pilot \<notin> set (pilot_names db) \<longrightarrow>
      (\<exists>row. p_pilot db pilot = (Inr (Response 201 row), db\<lparr>pilots := pilots db @ [row]\<rparr>) \<and>
             pilot_row_name row = name pilot \<and>
             pilot_row_attrs row = pilot_create_attrs pilot \<and>
             pilot_row_id row \<notin> set (pilot_ids db)))"
proof (cases "name pilot \<in> set (pilot_names db)")
  case True
  then have "get_pilot_by_name db (name pilot) \<noteq> None"
    by (simp add: get_pilot_by_name_None)
  with True show ?thesis by (simp add: p_pilot_def)
next
  case False
  then have "get_pilot_by_name db (name pilot) = None"
    by (simp add: get_pilot_by_name_None)
  with False next_id_fresh [of "pilot_ids db"] show ?thesis
    by (simp add: p_pilot_def returning_def create_pilot_def pilot_ids_def Let_def)
qed

theorem p_pilot_duplicate_or_created_witness:
  "name \<lparr>name = ''Alice'', pilot_create_attrs = []\<rparr> \<in> set (pilot_names example_session) \<and>
   p_pilot example_session \<lparr>name = ''Alice'', pilot_create_attrs = []\<rparr> =
     (Inl (HTTPException 400 ''Name already registered''), example_session) \<and>
   name \<lparr>name = ''Bob'', pilot_create_attrs = []\<rparr> \<notin> set (pilot_names example_session) \<and>
   (\<exists>row. p_pilot example_session \<lparr>name = ''Bob'', pilot_create_attrs = []\<rparr> =
            (Inr (Response 201 row),
             example_session\<lparr>pilots := pilots example_session @ [row]\<rparr>) \<and>
          pilot_row_name row = ''Bob'')"
proof -
  have dup: "name \<lparr>name = ''Alice'', pilot_create_attrs = []\<rparr> \<in> set (pilot_names example_session)"
    and new: "name \<lparr>name = ''Bob'', pilot_create_attrs = []\<rparr> \<notin> set (pilot_names example_session)"
    by (simp_all add: pilot_names_def example_session_def)
  show ?thesis
    using dup new
      p_pilot_duplicate_or_created [of "\<lparr>name = ''Alice'', pilot_create_attrs = []\<rparr>" example_session]
      p_pilot_duplicate_or_created [of "\<lparr>name = ''Bob'', pilot_create_attrs = []\<rparr>" example_session]
    by auto
qed

section \<open>Creating a flight\<close>

text \<open>
  Claim C1.  The flight-creation handler checks the pilot reference first and the
  aircraft reference second.  When the referenced pilot is not in the pilot table it
  raises the 422 error naming the pilot; otherwise, when the referenced aircraft is not
  in the aircraft table, it raises the 422 error naming the aircraft; in both cases the
  session is as before.  When both exist it answers 201 with the created row, the one
  row added to the flight table, carrying the two references.  So a flight row is
  created and returned only when both lookups succeed.
\<close>

theorem p_flight_checks_pilot_then_aircraft:
  "(pilot_id \<notin> Some ` set (pilot_ids db) \<longrightarrow>
      p_flight db flight pilot_id aircraft_id =
        (Inl (HTTPException 422 ''Pilot ID required.''), db)) \<and>
   (pilot_id \<in> Some ` set (pilot_ids db) \<and> aircraft_id \<notin> Some ` set (aircraft_ids db) \<longrightarrow>
      p_flight db flight pilot_id aircraft_id =
        (Inl (HTTPException 422 ''Aircraft ID required.''), db)) \<and>
   (pilot_id \<in> Some ` set (pilot_ids db) \<and> aircraft_id \<in> Some ` set (aircraft_ids db) \<longrightarrow>
      (\<exists>row. p_flight db flight pilot_id aircraft_id =
               (Inr (Response 201 row), db\<lparr>flights := flights db @ [row]\<rparr>) \<and>
             flight_row_pilot row = pilot_id \<and> flight_row_aircraft row = aircraft_id \<and>
             flight_row_attrs row = flight_create_attrs flight \<and>
             flight_row_id row \<notin> set (map flight_row_id (flights db)))) \<and>
   (\<forall>r db'. p_flight db flight pilot_id aircraft_id = (Inr r, db') \<longrightarrow>
      get_pilot_by_id db pilot_id \<noteq> None \<and> get_aircraft_by_id db aircraft_id \<noteq> None)"
proof -
  have fresh: "next_id (map flight_row_id (flights db)) \<notin> flight_row_id ` set (flights db)"
    using next_id_fresh [of "map flight_row_id (flights db)"] by simp
  show ?thesis
  proof (cases "get_pilot_by_id db pilot_id = None")
    case True
    then show ?thesis
      using pilot_lookup_fails_iff [of db pilot_id] by (simp add: p_flight_def)
  next
    case pilot: False
    show ?thesis
    proof (cases "get_aircraft_by_id db aircraft_id = None")
      case True
      with pilot show ?thesis
        using pilot_lookup_fails_iff [of db pilot_id]
          aircraft_lookup_fails_iff [of db aircraft_id]
        by (simp add: p_flight_def)
    next
      case False
      with pilot fresh show ?thesis
        using pilot_lookup_fails_iff [of db pilot_id]
          aircraft_lookup_fails_iff [of db aircraft_id]
        by (simp add: p_flight_def returning_def create_flight_def Let_def)
    qed
  qed
qed

theorem p_flight_checks_pilot_then_aircraft_witness:
  "Some 999 \<notin> Some ` set (pilot_ids example_session) \<and>
   p_flight example_session \<lparr>flight_create_attrs = []\<rparr> (Some 999) (Some 1) =
     (Inl (HTTPException 422 ''Pilot ID required.''), example_session) \<and>
   Some 1 \<in> Some ` set (pilot_ids example_session) \<and>
   Some 5 \<notin> Some ` set (aircraft_ids example_session) \<and>
   p_flight example_session \<lparr>flight_create_attrs = []\<rparr> (Some 1) (Some 5) =
     (Inl (HTTPException 422 ''Aircraft ID required.''), example_session) \<and>
   Some 1 \<in> Some ` set (aircraft_ids example_session) \<and>
   (\<exists>row. p_flight example_session \<lparr>flight_create_attrs = []\<rparr> (Some 1) (Some 1) =
            (Inr (Response 201 row),
             example_session\<lparr>flights := flights example_session @ [row]\<rparr>) \<and>
          flight_row_pilot row = Some 1 \<and> flight_row_aircraft row = Some 1) \<and>
   get_pilot_by_id example_session (Some 1) \<noteq> None \<and>
   get_aircraft_by_id example_session (Some 1) \<noteq> None"
proof -
  have ids: "pilot_ids example_session = [1]" "aircraft_ids example_session = [1]"
    by (simp_all add: pilot_ids_def aircraft_ids_def example_session_def)
  show ?thesis
    using
      p_flight_checks_pilot_then_aircraft
        [of "Some 999" example_session "\<lparr>flight_create_attrs = []\<rparr>" "Some 1"]
      p_flight_checks_pilot_then_aircraft
        [of "Some 1" example_session "\<lparr>flight_create_attrs = []\<rparr>" "Some 5"]
      p_flight_checks_pilot_then_aircraft
        [of "Some 1" example_session "\<lparr>flight_create_attrs = []\<rparr>" "Some 1"]
    unfolding ids by auto
qed

text \<open>
  Claim C9.  In the flight-creation handler an omitted \<^verbatim>\<open>pilot_id\<close> has exactly the
  outcome of a pilot id that is in no row: the 422 error "Pilot ID required.", in every
  session.  An omitted \<^verbatim>\<open>aircraft_id\<close> likewise has exactly the outcome of an aircraft
  id that is in no row, which is the 422 error "Aircraft ID required." once the pilot
  reference resolves.
\<close>

theorem p_flight_omitted_is_nonexistent:
  "p_flight db flight None aircraft_id =
     (Inl (HTTPException 422 ''Pilot ID required.''), db) \<and>
   (i \<notin> set (pilot_ids db) \<longrightarrow>
      p_flight db flight (Some i) aircraft_id = p_flight db flight None aircraft_id) \<and>
   (j \<notin> set (aircraft_ids db) \<longrightarrow>
      p_flight db flight pilot_id (Some j) = p_flight db flight pilot_id None) \<and>
   (pilot_id \<in> Some ` set (pilot_ids db) \<longrightarrow>
      p_flight db flight pilot_id None =
        (Inl (HTTPException 422 ''Aircraft ID required.''), db))"
proof -
  have omitted: "p_flight db flight None aircraft_id =
      (Inl (HTTPException 422 ''Pilot ID required.''), db)"
    by (simp add: p_flight_def get_pilot_by_id_omitted)
  have pilot: "p_flight db flight (Some i) aircraft_id = p_flight db flight None aircraft_id"
    if "i \<notin> set (pilot_ids db)"
    using that by (simp add: p_flight_def get_pilot_by_id_omitted get_pilot_by_id_None)
  have aircraft: "p_flight db flight pilot_id (Some j) = p_flight db flight pilot_id None"
    if "j \<notin> set (aircraft_ids db)"
    using that
    by (simp add: p_flight_def get_aircraft_by_id_omitted get_aircraft_by_id_None)
  have resolved: "p_flight db flight pilot_id None =
      (Inl (HTTPException 422 ''Aircraft ID required.''), db)"
    if "pilot_id \<in> Some ` set (pilot_ids db)"
    using that pilot_lookup_fails_iff [of db pilot_id]
    by (simp add: p_flight_def get_aircraft_by_id_omitted)
  from omitted pilot aircraft resolved show ?thesis by blast
qed

theorem p_flight_omitted_is_nonexistent_witness:
  "999 \<notin> set (pilot_ids example_session) \<and>
   p_flight example_session \<lparr>flight_create_attrs = []\<rparr> (Some 999) (Some 1) =
     (Inl (HTTPException 422 ''Pilot ID required.''), example_session) \<and>
   p_flight example_session \<lparr>flight_create_attrs = []\<rparr> None (Some 1) =
     (Inl (HTTPException 422 ''Pilot ID required.''), example_session) \<and>
   5 \<notin> set (aircraft_ids example_session) \<and>
   Some 1 \<in> Some ` set (pilot_ids example_session) \<and>
   p_flight example_session \<lparr>flight_create_attrs = []\<rparr> (Some 1) (Some 5) =
     (Inl (HTTPException 422 ''Aircraft ID required.''), example_session) \<and>
   p_flight example_session \<lparr>flight_create_attrs = []\<rparr> (Some 1) None =
     (Inl (HTTPException 422 ''Aircraft ID required.''), example_session)"
proof -
  have ids: "pilot_ids example_session = [1]" "aircraft_ids example_session = [1]"
    by (simp_all add: pilot_ids_def aircraft_ids_def example_session_def)
  show ?thesis
    using
      p_flight_omitted_is_nonexistent
        [of example_session "\<lparr>flight_create_attrs = []\<rparr>" "Some 1" 999 5 "Some 1"]
    unfolding ids by simp
qed

section \<open>Deleting a logbook layout\<close>

lemma filter_keeps_all: "list_all P xs \<Longrightarrow> filter P xs = xs"
  by (induction xs) auto

lemma logbooks_after_delete:
  "logbooks (snd (del_logbook db pilot_id logbook_id)) =
     filter (\<lambda>l. \<not> matches pilot_id logbook_id l) (logbooks db)"
  by (simp add: del_logbook_def returning_def delete_logbook_map_def matches_def)

text \<open>
  Claim C5.  A logbook deletion with parameters (pilot_id, logbook_id) is scoped to the
  rows matching both: the rows of other pilots are all still there afterwards, in their
  order, whatever their logbook id; the rows not matching both identifiers are exactly
  the rows of the table afterwards; and the pilot, aircraft and flight tables are as
  before.
\<close>

theorem del_logbook_scoped_to_both:
  "filter (\<lambda>l. logbook_row_pilot l \<noteq> pilot_id)
      (logbooks (snd (del_logbook db pilot_id logbook_id))) =
     filter (\<lambda>l. logbook_row_pilot l \<noteq> pilot_id) (logbooks db) \<and>
   (\<forall>l \<in> set (logbooks db). logbook_row_pilot l \<noteq> pilot_id \<longrightarrow>
      l \<in> set (logbooks (snd (del_logbook db pilot_id logbook_id)))) \<and>
   logbooks (snd (del_logbook db pilot_id logbook_id)) =
     filter (\<lambda>l. \<not> matches pilot_id logbook_id l) (logbooks db) \<and>
   pilots (snd (del_logbook db pilot_id logbook_id)) = pilots db \<and>
   aircrafts (snd (del_logbook db pilot_id logbook_id)) = aircrafts db \<and>
   flights (snd (del_logbook db pilot_id logbook_id)) = flights db"
proof -
  have others: "filter (\<lambda>l. logbook_row_pilot l \<noteq> pilot_id)
      (filter (\<lambda>l. \<not> matches pilot_id logbook_id l) xs) =
      filter (\<lambda>l. logbook_row_pilot l \<noteq> pilot_id) xs" for xs
    by (induction xs) (auto simp: matches_def)
  have kept: "l \<in> set (filter (\<lambda>l. \<not> matches pilot_id logbook_id l) (logbooks db))"
    if "l \<in> set (logbooks db)" "logbook_row_pilot l \<noteq> pilot_id" for l
    using that by (simp add: matches_def)
  have frame: "pilots (snd (del_logbook db pilot_id logbook_id)) = pilots db"
    "aircrafts (snd (del_logbook db pilot_id logbook_id)) = aircrafts db"
    "flights (snd (del_logbook db pilot_id logbook_id)) = flights db"
    by (simp_all add: del_logbook_def returning_def delete_logbook_map_def)
  show ?thesis
    unfolding logbooks_after_delete using others kept frame by blast
qed

theorem del_logbook_scoped_to_both_witness:
  "\<lparr>logbook_row_id = 2, logbook_row_pilot = 2, logbook_row_layout = []\<rparr>
     \<in> set (logbooks example_session) \<and>
   logbook_row_pilot \<lparr>logbook_row_id = 2, logbook_row_pilot = 2, logbook_row_layout = []\<rparr> \<noteq> 1 \<and>
   \<lparr>logbook_row_id = 2, logbook_row_pilot = 2, logbook_row_layout = []\<rparr>
     \<in> set (logbooks (snd (del_logbook example_session 1 2))) \<and>
   logbooks (snd (del_logbook example_session 1 2)) = logbooks example_session \<and>
   logbooks (snd (del_logbook example_session 1 1)) =
     [\<lparr>logbook_row_id = 2, logbook_row_pilot = 2, logbook_row_layout = []\<rparr>]"
proof -
  have rows: "logbooks example_session =
      [\<lparr>logbook_row_id = 1, logbook_row_pilot = 1, logbook_row_layout = []\<rparr>,
       \<lparr>logbook_row_id = 2, logbook_row_pilot = 2, logbook_row_layout = []\<rparr>]"
    by (simp add: example_session_def)
  show ?thesis
    using del_logbook_scoped_to_both [of 1 example_session 2]
      del_logbook_scoped_to_both [of 1 example_session 1]
    unfolding rows by (simp add: matches_def)
qed

text \<open>
  Claim C8.  A logbook deletion with both identifiers supplied always answers 202 and
  never raises.  In particular, when no row matches the pair, the answer is still 202 and
  the session is as before: no not-found error is signalled.
\<close>

theorem del_logbook_always_accepted:
  "fst (del_logbook db pilot_id logbook_id) = Inr (Response 202 ()) \<and>
   (list_all (\<lambda>l. \<not> matches pilot_id logbook_id l) (logbooks db) \<longrightarrow>
      del_logbook db pilot_id logbook_id = (Inr (Response 202 ()), db))"
proof -
  have "filter (\<lambda>l. \<not> matches pilot_id logbook_id l) (logbooks db) = logbooks db"
    if "list_all (\<lambda>l. \<not> matches pilot_id logbook_id l) (logbooks db)"
    using that by (rule filter_keeps_all)
  then show ?thesis
    by (simp add: del_logbook_def returning_def delete_logbook_map_def matches_def)
qed

theorem del_logbook_always_accepted_witness:
  "list_all (\<lambda>l. \<not> matches 2 1 l) (logbooks example_session) \<and>
   del_logbook example_session 2 1 = (Inr (Response 202 ()), example_session) \<and>
   fst (del_logbook example_session 1 1) = Inr (Response 202 ())"
proof -
  have none: "list_all (\<lambda>l. \<not> matches 2 1 l) (logbooks example_session)"
    by (simp add: example_session_def matches_def)
  show ?thesis
    using none del_logbook_always_accepted [of example_session 2 1]
      del_logbook_always_accepted [of example_session 1 1]
    by simp
qed

section \<open>Creating an aircraft\<close>

text \<open>
  Claim C6.  The aircraft-creation handler inserts a row for every request and answers
  201: it looks at no pilot row, so the new aircraft row is added with the given owner
  reference also when that reference is the id of no pilot.
\<close>

theorem p_aircraft_inserts_unconditionally:
  "\<exists>row. p_aircraft db pilot_id aircraft =
           (Inr (Response 201 row), db\<lparr>aircrafts := aircrafts db @ [row]\<rparr>) \<and>
         aircraft_row_pilot row = pilot_id \<and>
         aircraft_row_tail row = aircraft_create_tail aircraft \<and>
         aircraft_row_attrs row = aircraft_create_attrs aircraft \<and>
         aircraft_row_id row \<notin> set (aircraft_ids db)"
  using next_id_fresh [of "aircraft_ids db"]
  by (simp add: p_aircraft_def returning_def create_aircraft_def aircraft_ids_def Let_def)

theorem p_aircraft_inserts_unconditionally_witness:
  "42 \<notin> set (pilot_ids example_session) \<and>
   (\<exists>row. p_aircraft example_session 42 \<lparr>aircraft_create_tail = codes ''N777'', aircraft_create_attrs = []\<rparr> =
            (Inr (Response 201 row),
             example_session\<lparr>aircrafts := aircrafts example_session @ [row]\<rparr>) \<and>
          aircraft_row_pilot row = 42)"
proof -
  have "42 \<notin> set (pilot_ids example_session)"
    by (simp add: pilot_ids_def example_session_def)
  then show ?thesis
    using p_aircraft_inserts_unconditionally
      [of example_session 42 "\<lparr>aircraft_create_tail = codes ''N777'', aircraft_create_attrs = []\<rparr>"]
    by auto
qed

section \<open>Uploading a logbook file\<close>

text \<open>
  Claim C7.  The upload handler never modifies persistent state: whatever the file, the
  pilot id and the behaviour of the decoding and parsing calls, and whether the handler
  returns or raises, the session afterwards is the session before, so no row of the
  pilot, aircraft, flight or logbook table is created, modified or deleted.
\<close>

theorem upload_logbook_file_keeps_session:
  "snd (snd (upload_logbook_file pd db file pilot_id)) = db"
  by (simp add: upload_logbook_file_def Let_def split: option.split sum.split)

theorem upload_logbook_file_keeps_session_witness:
  "upload_logbook_file example_pandas example_session ''Date'' (Some 1) =
     (Inl (KeyError ''Aircraft''), [], example_session) \<and>
   snd (snd (upload_logbook_file example_pandas example_session ''Date'' (Some 1))) =
     example_session \<and>
   upload_logbook_file example_pandas example_session [] (Some 1) =
     (Inl UnicodeDecodeError, [], example_session)"
  using upload_logbook_file_keeps_session [of example_pandas example_session "''Date''" "Some 1"]
  by (simp add: upload_logbook_file_def example_pandas_def)

section \<open>Path parameters that are always bound\<close>

text \<open>
  Claim C10.  When the path parameter is bound to a value, the logbook-list handler and
  the aircraft-search handler do not raise their 400 errors: each proceeds to the lookup
  and answers 200 with its result.  The 400 errors are raised only for an unbound
  parameter, which a dispatched request on these routes never has.
\<close>

theorem bound_path_parameter_reaches_lookup:
  "g_logbook db (Some i) = (Inr (Response 200 (get_logbook_by_pilot db i)), db) \<and>
   search_tn db (Some t) = (Inr (Response 200 (get_aircraft_by_tail db (upper t))), db) \<and>
   ((\<exists>e. fst (g_logbook db pilot_id) = Inl e) \<longleftrightarrow> pilot_id = None) \<and>
   ((\<exists>e. fst (search_tn db ac_tail) = Inl e) \<longleftrightarrow> ac_tail = None)"
  by (simp add: g_logbook_def search_tn_def returning_def split: option.split)

theorem bound_path_parameter_reaches_lookup_witness:
  "g_logbook example_session (Some 2) =
     (Inr (Response 200
        [\<lparr>logbook_row_id = 2, logbook_row_pilot = 2, logbook_row_layout = []\<rparr>]),
      example_session) \<and>
   fst (g_logbook example_session None) = Inl (HTTPException 400 ''Pilot ID needed'') \<and>
   fst (search_tn example_session None) = Inl (HTTPException 400 ''Missing Tail Number'')"
  using bound_path_parameter_reaches_lookup [of example_session 2 "codes ''N1''" None None]
  by (simp add: g_logbook_def search_tn_def get_logbook_by_pilot_def example_session_def)

section \<open>Searching an aircraft by tail number\<close>

subsection \<open>An upper-case form is its own upper-case form\<close>

lemma find_in_run_member:
  "find (in_run c) rs = Some a \<Longrightarrow> a \<in> set rs \<and> in_run c a"
  by (rule find_Some_member)

lemma parity_of_difference:
  fixes a b :: nat
  shows "b \<le> a \<Longrightarrow> (a - b) mod 2 = 0 \<Longrightarrow> a mod 2 = b mod 2"
  by presburger

lemma parity_of_sum:
  fixes t k :: nat
  shows "k mod 2 = 0 \<Longrightarrow> (t + k) mod 2 = t mod 2"
  by presburger

lemma in_run_even_offset:
  assumes "in_run c (lo, hi, step, tgt)" and "step = 2 \<or> lo = hi"
  shows "(c - lo) mod 2 = 0"
proof -
  from assms(1) have "lo \<le> c" "c \<le> hi" "(c - lo) mod step = 0"
    by (simp_all add: in_run_def)
  with assms(2) show ?thesis by auto
qed

lemma image_clear_cases:
  assumes "image_clear (lo, hi, step, tgt) (lo2, hi2, step2, tgt2)"
  shows "tgt + (hi - lo) < lo2 \<or> hi2 < tgt \<or>
    ((step = 2 \<or> lo = hi) \<and> step2 = 2 \<and> tgt mod 2 \<noteq> lo2 mod 2)"
  using assms unfolding image_clear_def prod.case by meson

lemma image_misses_cases:
  assumes "image_misses (lo, hi, step, tgt) k"
  shows "k < tgt \<or> tgt + (hi - lo) < k \<or> ((step = 2 \<or> lo = hi) \<and> k mod 2 \<noteq> tgt mod 2)"
  using assms unfolding image_misses_def prod.case by meson

lemma image_clear_sound:
  assumes clear: "image_clear (lo, hi, step, tgt) b" and run: "in_run c (lo, hi, step, tgt)"
  shows "\<not> in_run (tgt + (c - lo)) b"
proof
  assume hit: "in_run (tgt + (c - lo)) b"
  obtain lo2 hi2 step2 tgt2 where b: "b = (lo2, hi2, step2, tgt2)"
    by (cases b) auto
  from run have c: "lo \<le> c" "c \<le> hi"
    by (simp_all add: in_run_def)
  from hit have d: "lo2 \<le> tgt + (c - lo)" "tgt + (c - lo) \<le> hi2"
    "(tgt + (c - lo) - lo2) mod step2 = 0"
    by (simp_all add: in_run_def b)
  from clear consider "tgt + (hi - lo) < lo2" | "hi2 < tgt"
    | "step = 2 \<or> lo = hi" "step2 = 2" "tgt mod 2 \<noteq> lo2 mod 2"
    using image_clear_cases [of lo hi step tgt lo2 hi2 step2 tgt2] unfolding b by blast
  then show False
  proof cases
    case 1
    with c d(1) show False by linarith
  next
    case 2
    with d(2) show False by linarith
  next
    case 3
    have "(c - lo) mod 2 = 0"
      using run 3(1) by (rule in_run_even_offset)
    then have "(tgt + (c - lo)) mod 2 = tgt mod 2"
      by (rule parity_of_sum)
    moreover have "(tgt + (c - lo)) mod 2 = lo2 mod 2"
      using d(1) d(3) unfolding 3(2) by (rule parity_of_difference)
    ultimately show False using 3(3) by simp
  qed
qed

lemma image_misses_sound:
  assumes miss: "image_misses (lo, hi, step, tgt) k" and run: "in_run c (lo, hi, step, tgt)"
  shows "tgt + (c - lo) \<noteq> k"
proof
  assume eq: "tgt + (c - lo) = k"
  from run have c: "lo \<le> c" "c \<le> hi"
    by (simp_all add: in_run_def)
  from miss consider "k < tgt" | "tgt + (hi - lo) < k"
    | "step = 2 \<or> lo = hi" "k mod 2 \<noteq> tgt mod 2"
    using image_misses_cases [of lo hi step tgt k] by blast
  then show False
  proof cases
    case 1
    with eq show False by linarith
  next
    case 2
    with eq c show False by linarith
  next
    case 3
    have "(c - lo) mod 2 = 0"
      using run 3(1) by (rule in_run_even_offset)
    then have "(tgt + (c - lo)) mod 2 = tgt mod 2"
      by (rule parity_of_sum)
    with eq 3(2) show False by simp
  qed
qed

lemma upper_runs_images_clear:
  "list_all (\<lambda>a. list_all (image_clear a) upper_runs) upper_runs"
  by (simp add: upper_runs_def image_clear_def)

lemma upper_runs_images_miss_special:
  "list_all (\<lambda>a. list_all (image_misses a) (map fst upper_special)) upper_runs"
  by (simp add: upper_runs_def upper_special_def image_misses_def)

lemma upper_special_long: "list_all (\<lambda>e. 2 \<le> length (snd e)) upper_special"
  by (simp add: upper_special_def)

lemma upper_char_image_fixed:
  assumes "upper_char c = [d]"
  shows "upper_char d = [d]"
proof (cases "find (in_run c) upper_runs")
  case (Some a)
  obtain lo hi step tgt where a: "a = (lo, hi, step, tgt)"
    by (cases a) auto
  from Some have mem: "a \<in> set upper_runs" and run: "in_run c (lo, hi, step, tgt)"
    using find_in_run_member [of c upper_runs a] by (simp_all add: a)
  from assms Some have d: "d = tgt + (c - lo)"
    by (simp add: upper_char_def case_map_def a)
  have "\<not> in_run d b" if "b \<in> set upper_runs" for b
  proof -
    from mem that have "image_clear (lo, hi, step, tgt) b"
      using upper_runs_images_clear by (simp add: list_all_iff a)
    then show ?thesis unfolding d using run by (rule image_clear_sound)
  qed
  then have no_run: "find (in_run d) upper_runs = None"
    by (simp add: find_None_conv list_all_iff)
  have "d \<noteq> k" if "k \<in> fst ` set upper_special" for k
  proof -
    from mem that have "image_misses (lo, hi, step, tgt) k"
      using upper_runs_images_miss_special by (auto simp: list_all_iff a)
    then show ?thesis unfolding d using run by (rule image_misses_sound)
  qed
  then have "map_of upper_special d = None"
    by (auto simp: map_of_eq_None_iff)
  with no_run show ?thesis by (simp add: upper_char_def case_map_def)
next
  case None
  show ?thesis
  proof (cases "map_of upper_special c")
    case no: None
    with None assms have "d = c" by (simp add: upper_char_def case_map_def)
    with assms show ?thesis by simp
  next
    case (Some u)
    then have "(c, u) \<in> set upper_special" by (rule map_of_SomeD)
    then have "2 \<le> length u"
      using upper_special_long by (auto simp: list_all_iff)
    moreover from None Some assms have "u = [d]"
      by (simp add: upper_char_def case_map_def)
    ultimately show ?thesis by simp
  qed
qed

lemma upper_char_upper_variant: "upper_variant c d \<Longrightarrow> upper_char c = upper_char d"
  unfolding upper_variant_def using upper_char_image_fixed by fastforce

lemma upper_differ_only_by_upper: "differ_only_by_upper s t \<Longrightarrow> upper s = upper t"
  unfolding differ_only_by_upper_def upper_def
  by (induction s t rule: list_all2_induct) (simp_all add: upper_char_upper_variant)

subsection \<open>Upper-casing on ASCII text\<close>

lemma upper_runs_split:
  "upper_runs = (97, 122, 1, 65) # tl upper_runs \<and> list_all (\<lambda>r. 128 \<le> fst r) (tl upper_runs)"
  by (simp add: upper_runs_def)

lemma upper_special_not_ascii: "list_all (\<lambda>e. 128 \<le> fst e) upper_special"
  by (simp add: upper_special_def)

lemma upper_char_ascii:
  assumes "c < 128"
  shows "upper_char c = (if 97 \<le> c \<and> c \<le> 122 then [c - 32] else [c])"
proof -
  have rest: "find (in_run c) (tl upper_runs) = None"
    using upper_runs_split assms
    by (auto simp: find_None_conv list_all_iff in_run_def)
  have first: "find (in_run c) upper_runs =
      (if 97 \<le> c \<and> c \<le> 122 then Some (97, 122, 1, 65) else None)"
    using rest upper_runs_split
      find.simps(2) [of "in_run c" "(97, 122, 1, 65)" "tl upper_runs"]
    by (simp add: in_run_def)
  have "map_of upper_special c = None"
    using upper_special_not_ascii assms
    by (force simp: map_of_eq_None_iff list_all_iff)
  with first show ?thesis
    by (simp add: upper_char_def case_map_def)
qed

lemma upper_ascii_text:
  "list_all (\<lambda>c. c < 128) s \<Longrightarrow>
     upper s = map (\<lambda>c. if 97 \<le> c \<and> c \<le> 122 then c - 32 else c) s"
  by (induction s) (simp_all add: upper_def upper_char_ascii)

subsection \<open>Case-insensitive search\<close>

text \<open>
  Claim C4, as stated, at a concrete input.  The letter \<^verbatim>\<open>k\<close> (code point 107) and the
  Kelvin sign (code point 8490) differ only in letter case: \<^verbatim>\<open>k\<close> is the lower-case form
  of the Kelvin sign.  The upper-case form of \<^verbatim>\<open>k\<close> is \<^verbatim>\<open>K\<close> and the Kelvin sign is
  its own upper-case form, so in a session with an aircraft of tail \<^verbatim>\<open>K\<close> the first
  search finds the aircraft and the second finds nothing.
\<close>

theorem search_tn_case_insensitive_counterexample:
  "differ_only_in_case [107] [8490] \<and>
   search_tn example_fleet (Some [107]) =
     (Inr (Response 200 (Some \<lparr>aircraft_row_id = 1, aircraft_row_tail = [75],
                                aircraft_row_pilot = 1, aircraft_row_attrs = []\<rparr>)),
      example_fleet) \<and>
   search_tn example_fleet (Some [8490]) = (Inr (Response 200 None), example_fleet) \<and>
   search_tn example_fleet (Some [107]) \<noteq> search_tn example_fleet (Some [8490])"
proof -
  have low: "lower_char 8490 = [107]"
    by (simp add: lower_char_def case_map_def lower_runs_def lower_special_def in_run_def)
  have k: "upper_char 107 = [75]"
    by (simp add: upper_char_ascii)
  have kelvin: "upper_char 8490 = [8490]"
    by (simp add: upper_char_def case_map_def upper_runs_def upper_special_def in_run_def)
  have fleet: "aircrafts example_fleet =
      [\<lparr>aircraft_row_id = 1, aircraft_row_tail = [75],
        aircraft_row_pilot = 1, aircraft_row_attrs = []\<rparr>]"
    by (simp add: example_fleet_def codes_def)
  have "differ_only_in_case [107] [8490]"
    by (simp add: differ_only_in_case_def same_letter_def low)
  moreover have "search_tn example_fleet (Some [107]) =
     (Inr (Response 200 (Some \<lparr>aircraft_row_id = 1, aircraft_row_tail = [75],
                                aircraft_row_pilot = 1, aircraft_row_attrs = []\<rparr>)),
      example_fleet)"
    by (simp add: search_tn_def returning_def get_aircraft_by_tail_def upper_def k fleet)
  moreover have "search_tn example_fleet (Some [8490]) =
     (Inr (Response 200 None), example_fleet)"
    by (simp add: search_tn_def returning_def get_aircraft_by_tail_def upper_def kelvin fleet)
  ultimately show ?thesis by simp
qed

text \<open>
  Claim C4, amended.  The aircraft search upper-cases the tail text with
  \<^verbatim>\<open>str.upper()\<close> before the lookup and answers 200 with what the lookup of the
  upper-cased text finds.  So in every session two tail texts get the same answer when
  they differ only in that, at some positions, one has a character and the other has
  the upper-case form of that character (as \<^verbatim>\<open>n12345\<close> and \<^verbatim>\<open>N12345\<close> do).
\<close>

theorem search_tn_upper_case_insensitive:
  "differ_only_by_upper s t \<Longrightarrow>
     search_tn db (Some s) = search_tn db (Some t) \<and>
     search_tn db (Some s) = (Inr (Response 200 (get_aircraft_by_tail db (upper s))), db)"
  by (simp add: search_tn_def returning_def upper_differ_only_by_upper)

theorem search_tn_upper_case_insensitive_witness:
  "differ_only_by_upper (codes ''n12345'') (codes ''N12345'') \<and>
   search_tn example_session (Some (codes ''n12345'')) =
     search_tn example_session (Some (codes ''N12345'')) \<and>
   search_tn example_session (Some (codes ''n12345'')) =
     (Inr (Response 200 (Some \<lparr>aircraft_row_id = 1, aircraft_row_tail = codes ''N12345'',
                                aircraft_row_pilot = 1, aircraft_row_attrs = []\<rparr>)),
      example_session) \<and>
   search_tn example_session (Some (codes ''n777'')) =
     (Inr (Response 200 None), example_session) \<and>
   differ_only_by_upper [233, 49] [201, 49] \<and>
   search_tn example_session (Some [233, 49]) = search_tn example_session (Some [201, 49])"
proof -
  have d: "differ_only_by_upper (codes ''n12345'') (codes ''N12345'')"
    by (simp add: differ_only_by_upper_def upper_variant_def codes_def upper_char_ascii)
  have e: "upper_char 233 = [201]"
    by (simp add: upper_char_def case_map_def upper_runs_def in_run_def)
  have a: "differ_only_by_upper [233, 49] [201, 49]"
    by (simp add: differ_only_by_upper_def upper_variant_def e)
  have u: "upper (codes ''n12345'') = codes ''N12345''"
    "upper (codes ''n777'') = codes ''N777''"
    by (simp_all add: upper_def codes_def upper_char_ascii)
  have rows: "aircrafts example_session =
      [\<lparr>aircraft_row_id = 1, aircraft_row_tail = codes ''N12345'',
        aircraft_row_pilot = 1, aircraft_row_attrs = []\<rparr>]"
    by (simp add: example_session_def)
  have found: "get_aircraft_by_tail example_session (upper (codes ''n12345'')) =
      Some \<lparr>aircraft_row_id = 1, aircraft_row_tail = codes ''N12345'',
            aircraft_row_pilot = 1, aircraft_row_attrs = []\<rparr>"
    unfolding u by (simp add: get_aircraft_by_tail_def rows)
  have missing: "search_tn example_session (Some (codes ''n777'')) =
      (Inr (Response 200 None), example_session)"
    unfolding search_tn_def option.case u
    by (simp add: returning_def get_aircraft_by_tail_def rows codes_def)
  have ascii: "search_tn example_session (Some (codes ''n12345'')) =
        search_tn example_session (Some (codes ''N12345''))"
    "search_tn example_session (Some (codes ''n12345'')) =
      (Inr (Response 200 (get_aircraft_by_tail example_session (upper (codes ''n12345'')))),
       example_session)"
    using search_tn_upper_case_insensitive [OF d, of example_session] by blast+
  have accent: "search_tn example_session (Some [233, 49]) =
      search_tn example_session (Some [201, 49])"
    using search_tn_upper_case_insensitive [OF a, of example_session] by blast
  from d a missing accent ascii(1) ascii(2) [unfolded found] show ?thesis
    by blast
qed

end
